theory Spec2Isabelle
  imports Main
begin

section \<open>JavaScript values as the logger sees them\<close>

text \<open>
  The logger of \<^verbatim>\<open>src/orderbook/src/log.js\<close> is untyped at run time: its Flow
  annotations are erased, so every argument is an arbitrary JavaScript value. The values
  modelled here are \<^verbatim>\<open>undefined\<close>, \<^verbatim>\<open>null\<close>, booleans, integral numbers, big
  integers, strings, arrays, plain objects and functions. An object and a function
  (a class is a function) carry their own properties, in enumeration order, keys
  distinct; an array carries its elements only. Values are finite trees, so an object or
  array that contains itself is outside the model, as are \<^verbatim>\<open>NaN\<close>, fractions and
  symbols. Strings are lists of code units below 256. Numbers are integers small enough
  to print in plain decimal notation. Objects and functions inherit \<^verbatim>\<open>toString\<close> and
  \<^verbatim>\<open>valueOf\<close>.
\<close>

text \<open>
  A function value is one of the three \<^verbatim>\<open>logObject\<close> functions the module defines
  (lines 119, 136 and 154) or a function supplied by the application, known by a number.
\<close>

datatype fnref = BasicLogObject | InteractiveLogObject | NoneLogObject | UserFn nat

datatype jsval =
    JUndefined
  | JNull
  | JBool bool
  | JNum int
  | JBigInt int
  | JStr string
  | JArr "jsval list"
  | JObj "(string \<times> jsval) list"
  | JFun fnref "(string \<times> jsval) list"

text \<open>
  The errors the module and its host raise, and \<open>Thrown\<close>, known by a number, for what
  an application's function throws.
\<close>

datatype js_error = AssertionError | TypeError | ReferenceError | Thrown nat

text \<open>
  What the module reads from its host at the moment of one call: the text of
  \<^verbatim>\<open>new Error().stack\<close> (\<open>None\<close> where the engine has no stack capture and the
  property is \<^verbatim>\<open>undefined\<close>), the text of \<^verbatim>\<open>new Date().toISOString()\<close>,
  \<^verbatim>\<open>navigator.userAgent\<close> (\<open>None\<close> where there is no \<^verbatim>\<open>navigator\<close>), the
  source text \<^verbatim>\<open>Function.prototype.toString\<close> gives for each function, and what
  \<^verbatim>\<open>JSON.stringify\<close> arrives at for a value whose \<^verbatim>\<open>toJSON\<close> is an application's
  function, given the number of the function, the value, its key and the indentation:
  the error the function throws, \<open>None\<close> when what it returns has no serialisation, or
  the text of what it returns.
\<close>

record host =
  Error_stack :: "string option"
  Date_toISOString :: string
  navigator_userAgent :: "string option"
  function_text :: "fnref \<Rightarrow> string"
  toJSON_text :: "nat \<Rightarrow> jsval \<Rightarrow> string \<Rightarrow> string \<Rightarrow> js_error + string option"

text \<open>\<^verbatim>\<open>!v\<close> is false exactly for the truthy values.\<close>

fun truthy :: "jsval \<Rightarrow> bool" where
  "truthy JUndefined = False"
| "truthy JNull = False"
| "truthy (JBool b) = b"
| "truthy (JNum n) = (n \<noteq> 0)"
| "truthy (JBigInt n) = (n \<noteq> 0)"
| "truthy (JStr s) = (s \<noteq> [])"
| "truthy (JArr xs) = True"
| "truthy (JObj ps) = True"
| "truthy (JFun f ps) = True"

fun typeof :: "jsval \<Rightarrow> string" where
  "typeof JUndefined = ''undefined''"
| "typeof JNull = ''object''"
| "typeof (JBool b) = ''boolean''"
| "typeof (JNum n) = ''number''"
| "typeof (JBigInt n) = ''bigint''"
| "typeof (JStr s) = ''string''"
| "typeof (JArr xs) = ''object''"
| "typeof (JObj ps) = ''object''"
| "typeof (JFun f ps) = ''function''"

fun Array_isArray :: "jsval \<Rightarrow> bool" where
  "Array_isArray (JArr xs) = True"
| "Array_isArray v = False"

subsection \<open>Conversion to strings\<close>

definition digit_char :: "nat \<Rightarrow> char" where
  "digit_char d = ''0123456789'' ! (d mod 10)"

fun digits :: "nat \<Rightarrow> string" where
  "digits n = (if n < 10 then [digit_char n] else digits (n div 10) @ [digit_char n])"

definition Number_toString :: "int \<Rightarrow> string" where
  "Number_toString n = (if n < 0 then CHR ''-'' # digits (nat (- n)) else digits (nat n))"

text \<open>
  \<^verbatim>\<open>Array.prototype.join\<close> on elements already converted: the separator stands between
  neighbours only.
\<close>

fun join_strings :: "string list \<Rightarrow> string \<Rightarrow> string" where
  "join_strings [] sep = []"
| "join_strings [x] sep = x"
| "join_strings (x # y # ys) sep = x @ sep @ join_strings (y # ys) sep"

text \<open>
  \<^verbatim>\<open>String(v)\<close>. An array is its elements joined with a comma, where \<^verbatim>\<open>undefined\<close> and
  \<^verbatim>\<open>null\<close> elements count as empty strings.
\<close>

fun ToString :: "host \<Rightarrow> jsval \<Rightarrow> string" where
  "ToString h JUndefined = ''undefined''"
| "ToString h JNull = ''null''"
| "ToString h (JBool b) = (if b then ''true'' else ''false'')"
| "ToString h (JNum n) = Number_toString n"
| "ToString h (JBigInt n) = Number_toString n"
| "ToString h (JStr s) = s"
| "ToString h (JArr xs) =
     join_strings (map (\<lambda>x. if x = JUndefined \<or> x = JNull then [] else ToString h x) xs) '',''"
| "ToString h (JObj ps) = ''[object Object]''"
| "ToString h (JFun f ps) = function_text h f"

definition Array_join :: "host \<Rightarrow> jsval list \<Rightarrow> string \<Rightarrow> string" where
  "Array_join h xs sep =
     join_strings (map (\<lambda>x. if x = JUndefined \<or> x = JNull then [] else ToString h x) xs) sep"

section \<open>Loggers\<close>

text \<open>
  A logger holds \<^verbatim>\<open>_namespace\<close>, \<^verbatim>\<open>_prefix\<close> and, once \<^verbatim>\<open>_setParent\<close> has run,
  \<^verbatim>\<open>_parent\<close>.
\<close>

datatype Logger =
  Logger (Log_namespace: "jsval list") (Log_prefix: string) (Log_parent: "Logger option")

text \<open>The constructor, lines 12 to 24.\<close>

definition Log :: "host \<Rightarrow> jsval \<Rightarrow> Logger" where
  "Log h namespace =
     (let ns = (if \<not> truthy namespace then []
                else if Array_isArray namespace then (case namespace of JArr xs \<Rightarrow> xs | _ \<Rightarrow> [])
                else [JStr (ToString h namespace)])
      in Logger ns (Array_join h (ns @ [JStr []]) '': '') None)"

definition setParent :: "Logger \<Rightarrow> Logger \<Rightarrow> Logger" where
  "setParent this parentLogger = Logger (Log_namespace this) (Log_prefix this) (Some parentLogger)"

text \<open>\<^verbatim>\<open>Log.prototype.sub\<close>, lines 41 to 51.\<close>

definition sub :: "host \<Rightarrow> Logger \<Rightarrow> jsval \<Rightarrow> Logger" where
  "sub h this namespace =
     (let subNamespace = Log_namespace this;
          subNamespace = (if truthy namespace \<and> typeof namespace = ''string''
                          then subNamespace @ [namespace] else subNamespace);
          subLogger = Log h (JArr subNamespace)
      in setParent subLogger this)"

text \<open>The module's exports, lines 184 and 189.\<close>

definition module_exports :: "host \<Rightarrow> Logger" where
  "module_exports h = Log h JUndefined"

definition module_exports_internal :: "host \<Rightarrow> Logger" where
  "module_exports_internal h = sub h (module_exports h) JUndefined"

section \<open>The engine registry\<close>

text \<open>
  What a run leaves behind: each call of a \<^verbatim>\<open>console\<close> method with its arguments, and
  each call of an application's function: \<open>Called\<close> with its arguments when it is
  called as \<^verbatim>\<open>logObject\<close>, \<open>Applied\<close> when it is called in the place of \<^verbatim>\<open>apply\<close>,
  with \<^verbatim>\<open>Log\<close> and the array of these arguments. What such a function does is not part
  of this module: it is taken to return normally.
\<close>

datatype stream = console_log | console_warn | console_error

datatype event =
    Write stream "jsval list"
  | Called nat "jsval list"
  | Applied nat "jsval list"

text \<open>The process-wide state: \<^verbatim>\<open>Log.engine\<close> and the events so far.\<close>

record world =
  Log_engine :: jsval
  trace :: "event list"

text \<open>
  Reading a property that no built-in prototype defines: a \<^verbatim>\<open>TypeError\<close> on
  \<^verbatim>\<open>undefined\<close> and \<^verbatim>\<open>null\<close>, the own property of an object or of a function,
  \<^verbatim>\<open>undefined\<close> everywhere else.
\<close>

fun get_member :: "jsval \<Rightarrow> string \<Rightarrow> js_error + jsval" where
  "get_member JUndefined name = Inl TypeError"
| "get_member JNull name = Inl TypeError"
| "get_member (JObj ps) name = (case map_of ps name of Some x \<Rightarrow> Inr x | None \<Rightarrow> Inr JUndefined)"
| "get_member (JFun f ps) name = (case map_of ps name of Some x \<Rightarrow> Inr x | None \<Rightarrow> Inr JUndefined)"
| "get_member v name = Inr JUndefined"

text \<open>
  \<^verbatim>\<open>getEngine\<close> and \<^verbatim>\<open>setEngine\<close> are each one function stored twice, on \<^verbatim>\<open>Log\<close>
  and on \<^verbatim>\<open>Log.prototype\<close> (lines 157 and 161); the receiver is \<^verbatim>\<open>Log\<close> itself or
  an instance.
\<close>

datatype receiver = Class | Instance Logger

definition getEngine :: "receiver \<Rightarrow> world \<Rightarrow> jsval" where
  "getEngine this w = Log_engine w"

definition setEngine :: "receiver \<Rightarrow> jsval \<Rightarrow> world \<Rightarrow> (js_error + unit) \<times> world" where
  "setEngine this engine w =
     (if typeof engine \<noteq> ''object'' then (Inl AssertionError, w)
      else case get_member engine ''logObject'' of
             Inl e \<Rightarrow> (Inl e, w)
           | Inr m \<Rightarrow> if typeof m \<noteq> ''function'' then (Inl AssertionError, w)
                      else (Inr (), w\<lparr>Log_engine := engine\<rparr>))"

section \<open>Output\<close>

text \<open>\<^verbatim>\<open>String.prototype.split\<close> with a one-character separator.\<close>

fun split :: "char \<Rightarrow> string \<Rightarrow> string list" where
  "split c [] = [[]]"
| "split c (x # xs) =
     (if x = c then [] # split c xs
      else case split c xs of [] \<Rightarrow> [[x]] | y # ys \<Rightarrow> (x # y) # ys)"

text \<open>The class \<^verbatim>\<open>\s\<close> among the code units below 256.\<close>

definition is_space :: "char \<Rightarrow> bool" where
  "is_space c \<longleftrightarrow> c \<in> set [CHR 0x09, CHR 0x0A, CHR 0x0B, CHR 0x0C, CHR 0x0D, CHR 0x20, CHR 0xA0]"

text \<open>
  The location expression of line 85. Indexing past the end of an array gives
  \<^verbatim>\<open>undefined\<close>, and calling \<^verbatim>\<open>replace\<close> on it throws. The pattern
  \<^verbatim>\<open>/^\s+/\<close> matches the leading white space only.
\<close>

definition location :: "host \<Rightarrow> js_error + string" where
  "location h =
     (case Error_stack h of
        Some stack \<Rightarrow>
          (let frames = split (CHR 0x0A) stack
           in if 4 < length frames then Inr (dropWhile is_space (frames ! 4))
              else Inl TypeError)
      | None \<Rightarrow> Inr [])"

text \<open>\<^verbatim>\<open>getLogInfo\<close>, lines 76 to 88.\<close>

definition getLogInfo :: "host \<Rightarrow> jsval \<Rightarrow> jsval list \<Rightarrow> js_error + jsval list" where
  "getLogInfo h message args =
     (case location h of
        Inl e \<Rightarrow> Inl e
      | Inr loc \<Rightarrow>
          Inr ([JStr (''['' @ Date_toISOString h @ '']''),
                message,
                JStr ''--'',
                JStr loc,
                JStr [CHR 0x0A]] @ args))"

text \<open>\<^verbatim>\<open>logMessage\<close>, lines 95 to 108.\<close>

definition logMessage :: "int \<Rightarrow> jsval list \<Rightarrow> world \<Rightarrow> world" where
  "logMessage logLevel args w =
     (if logLevel = 1 \<or> logLevel = 2 then w\<lparr>trace := trace w @ [Write console_log args]\<rparr>
      else if logLevel = 3 then w\<lparr>trace := trace w @ [Write console_warn args]\<rparr>
      else if logLevel = 4 then w\<lparr>trace := trace w @ [Write console_error args]\<rparr>
      else w)"

subsection \<open>\<^verbatim>\<open>JSON.stringify(v, null, 2)\<close>\<close>

definition hex_char :: "nat \<Rightarrow> char" where
  "hex_char d = ''0123456789abcdef'' ! (d mod 16)"

definition escape :: "char \<Rightarrow> string" where
  "escape c =
     (if c = CHR 0x22 then [CHR 0x5C, CHR 0x22]
      else if c = CHR 0x5C then [CHR 0x5C, CHR 0x5C]
      else if c = CHR 0x08 then [CHR 0x5C, CHR ''b'']
      else if c = CHR 0x0C then [CHR 0x5C, CHR ''f'']
      else if c = CHR 0x0A then [CHR 0x5C, CHR ''n'']
      else if c = CHR 0x0D then [CHR 0x5C, CHR ''r'']
      else if c = CHR 0x09 then [CHR 0x5C, CHR ''t'']
      else if (of_char c :: nat) < 32
        then CHR 0x5C # ''u00'' @ [hex_char (of_char c div 16), hex_char (of_char c)]
      else [c])"

definition QuoteJSONString :: "string \<Rightarrow> string" where
  "QuoteJSONString s = CHR 0x22 # concat (map escape s) @ [CHR 0x22]"

text \<open>
  The results of a loop that stops at the first error: that error, or all the values.
\<close>

fun all_results :: "(js_error + 'a) list \<Rightarrow> js_error + 'a list" where
  "all_results [] = Inr []"
| "all_results (Inl e # rs) = Inl e"
| "all_results (Inr x # rs) = (case all_results rs of Inl e \<Rightarrow> Inl e | Inr xs \<Rightarrow> Inr (x # xs))"

text \<open>
  The \<^verbatim>\<open>toJSON\<close> hook of a value: its own member of that name, when that is a
  function.
\<close>

definition toJSON_hook :: "jsval \<Rightarrow> fnref option" where
  "toJSON_hook v = (case get_member v ''toJSON'' of Inr (JFun g qs) \<Rightarrow> Some g | _ \<Rightarrow> None)"

text \<open>
  What the serialisation arrives at through a hook. Called as \<^verbatim>\<open>toJSON(key)\<close>, the
  \<^verbatim>\<open>logObject\<close> of the basic and of the interactive engine read \<^verbatim>\<open>map\<close> from their
  missing third argument and throw, and the one of the engine \<^verbatim>\<open>none\<close> returns
  \<^verbatim>\<open>undefined\<close>, which has no serialisation; an application's function is the host's.
\<close>

fun call_toJSON :: "host \<Rightarrow> fnref \<Rightarrow> jsval \<Rightarrow> string \<Rightarrow> string \<Rightarrow> js_error + string option" where
  "call_toJSON h BasicLogObject v ind key = Inl TypeError"
| "call_toJSON h InteractiveLogObject v ind key = Inl TypeError"
| "call_toJSON h NoneLogObject v ind key = Inr None"
| "call_toJSON h (UserFn k) v ind key = toJSON_text h k v key ind"

text \<open>
  The serialisation of one value, at a given indentation and under a given key: an
  error when it throws, \<open>None\<close> for \<^verbatim>\<open>undefined\<close>, or the text. A value with a hook is
  what the hook makes of it, and a big integer throws. In an array a value without a
  serialisation is written \<^verbatim>\<open>null\<close>, in an object its property is left out; the first
  element or property that throws ends the serialisation.
\<close>

fun SerializeJSONProperty ::
  "host \<Rightarrow> jsval \<Rightarrow> string \<Rightarrow> string \<Rightarrow> js_error + string option" where
  "SerializeJSONProperty h JUndefined = (\<lambda>ind key. Inr None)"
| "SerializeJSONProperty h JNull = (\<lambda>ind key. Inr (Some ''null''))"
| "SerializeJSONProperty h (JBool b) = (\<lambda>ind key. Inr (Some (if b then ''true'' else ''false'')))"
| "SerializeJSONProperty h (JNum n) = (\<lambda>ind key. Inr (Some (Number_toString n)))"
| "SerializeJSONProperty h (JBigInt n) = (\<lambda>ind key. Inl TypeError)"
| "SerializeJSONProperty h (JStr s) = (\<lambda>ind key. Inr (Some (QuoteJSONString s)))"
| "SerializeJSONProperty h (JArr xs) = (\<lambda>ind key.
     case all_results
            (map2 (\<lambda>i element. element (ind @ ''  '') (digits i)) [0..<length xs]
               (map (SerializeJSONProperty h) xs)) of
       Inl e \<Rightarrow> Inl e
     | Inr partial \<Rightarrow>
         Inr (Some (if partial = [] then ''[]''
                    else ''['' @ [CHR 0x0A] @ (ind @ ''  '')
                         @ join_strings
                             (map (\<lambda>r. case r of None \<Rightarrow> ''null'' | Some t \<Rightarrow> t) partial)
                             ('','' @ [CHR 0x0A] @ (ind @ ''  ''))
                         @ [CHR 0x0A] @ ind @ '']'')))"
| "SerializeJSONProperty h (JObj ps) = (\<lambda>ind key.
     case toJSON_hook (JObj ps) of
       Some g \<Rightarrow> call_toJSON h g (JObj ps) ind key
     | None \<Rightarrow>
         (case all_results
                 (map (\<lambda>p. case SerializeJSONProperty h (snd p) (ind @ ''  '') (fst p) of
                              Inl e \<Rightarrow> Inl e
                            | Inr None \<Rightarrow> Inr []
                            | Inr (Some t) \<Rightarrow> Inr [QuoteJSONString (fst p) @ '': '' @ t]) ps) of
            Inl e \<Rightarrow> Inl e
          | Inr partial \<Rightarrow>
              Inr (Some (if concat partial = [] then ''{}''
                         else ''{'' @ [CHR 0x0A] @ (ind @ ''  '')
                              @ join_strings (concat partial) ('','' @ [CHR 0x0A] @ (ind @ ''  ''))
                              @ [CHR 0x0A] @ ind @ ''}''))))"
| "SerializeJSONProperty h (JFun f ps) = (\<lambda>ind key.
     case toJSON_hook (JFun f ps) of
       Some g \<Rightarrow> call_toJSON h g (JFun f ps) ind key
     | None \<Rightarrow> Inr None)"

definition JSON_stringify :: "host \<Rightarrow> jsval \<Rightarrow> js_error + jsval" where
  "JSON_stringify h v =
     (case SerializeJSONProperty h v [] [] of
        Inl e \<Rightarrow> Inl e
      | Inr None \<Rightarrow> Inr JUndefined
      | Inr (Some t) \<Rightarrow> Inr (JStr t))"

subsection \<open>The built-in engines\<close>

text \<open>\<^verbatim>\<open>engines.basic.logObject\<close>, lines 119 to 125. The callback of \<^verbatim>\<open>map\<close> runs
  on the extra values in order, and the first one on which \<^verbatim>\<open>JSON.stringify\<close> throws
  ends the call.\<close>

definition engines_basic_logObject ::
  "host \<Rightarrow> int \<Rightarrow> jsval \<Rightarrow> jsval list \<Rightarrow> world \<Rightarrow> (js_error + unit) \<times> world" where
  "engines_basic_logObject h level message args' w =
     (case all_results (map (JSON_stringify h) args') of
        Inl e \<Rightarrow> (Inl e, w)
      | Inr args \<Rightarrow>
          (case getLogInfo h message args of
             Inl e \<Rightarrow> (Inl e, w)
           | Inr info \<Rightarrow> (Inr (), logMessage level info w)))"

text \<open>\<^verbatim>\<open>/MSIE/.test(s)\<close>.\<close>

fun contains :: "string \<Rightarrow> string \<Rightarrow> bool" where
  "contains pat [] = (pat = [])"
| "contains pat (x # xs) = (take (length pat) (x # xs) = pat \<or> contains pat xs)"

text \<open>\<^verbatim>\<open>engines.interactive.logObject\<close>, lines 136 to 144. The callback reads
  \<^verbatim>\<open>navigator\<close> once per element, so a missing \<^verbatim>\<open>navigator\<close> is an error only when
  there is an element.\<close>

definition engines_interactive_logObject ::
  "host \<Rightarrow> int \<Rightarrow> jsval \<Rightarrow> jsval list \<Rightarrow> world \<Rightarrow> (js_error + unit) \<times> world" where
  "engines_interactive_logObject h level message args' w =
     (case (if args' = [] then Inr []
            else case navigator_userAgent h of
                   None \<Rightarrow> Inl ReferenceError
                 | Some userAgent \<Rightarrow>
                     all_results
                       (map (\<lambda>arg. if contains ''MSIE'' userAgent then JSON_stringify h arg
                                    else Inr arg) args'))
      of Inl e \<Rightarrow> (Inl e, w)
       | Inr args \<Rightarrow>
           (case getLogInfo h message args of
              Inl e \<Rightarrow> (Inl e, w)
            | Inr info \<Rightarrow> (Inr (), logMessage level info w)))"

definition engines_basic :: jsval where
  "engines_basic = JObj [(''logObject'', JFun BasicLogObject [])]"

definition engines_interactive :: jsval where
  "engines_interactive = JObj [(''logObject'', JFun InteractiveLogObject [])]"

definition engines_none :: jsval where
  "engines_none = JObj [(''logObject'', JFun NoneLogObject [])]"

text \<open>Calling a function value as \<^verbatim>\<open>logObject(level, message, args)\<close>.\<close>

fun call_logObject ::
  "fnref \<Rightarrow> host \<Rightarrow> int \<Rightarrow> jsval \<Rightarrow> jsval list \<Rightarrow> world \<Rightarrow> (js_error + unit) \<times> world" where
  "call_logObject BasicLogObject h level message args w =
     engines_basic_logObject h level message args w"
| "call_logObject InteractiveLogObject h level message args w =
     engines_interactive_logObject h level message args w"
| "call_logObject NoneLogObject h level message args w = (Inr (), w)"
| "call_logObject (UserFn k) h level message args w =
     (Inr (), w\<lparr>trace := trace w @ [Called k [JNum level, message, JArr args]]\<rparr>)"

text \<open>
  Calling a function value in the place of \<^verbatim>\<open>apply\<close>, that is with \<^verbatim>\<open>Log\<close> and the
  array \<^verbatim>\<open>[level, message, args]\<close> as its arguments. The \<^verbatim>\<open>logObject\<close> of the basic
  and of the interactive engine then read \<^verbatim>\<open>map\<close> from their missing third argument and
  throw.
\<close>

fun call_as_apply ::
  "fnref \<Rightarrow> int \<Rightarrow> jsval \<Rightarrow> jsval list \<Rightarrow> world \<Rightarrow> (js_error + unit) \<times> world" where
  "call_as_apply BasicLogObject level message args w = (Inl TypeError, w)"
| "call_as_apply InteractiveLogObject level message args w = (Inl TypeError, w)"
| "call_as_apply NoneLogObject level message args w = (Inr (), w)"
| "call_as_apply (UserFn k) level message args w =
     (Inr (), w\<lparr>trace := trace w @ [Applied k [JNum level, message, JArr args]]\<rparr>)"

text \<open>
  \<^verbatim>\<open>m.apply(Log, [level, message, args])\<close> on the value \<open>m\<close> read from
  \<^verbatim>\<open>Log.engine.logObject\<close>. A function without a member \<^verbatim>\<open>apply\<close> of its own inherits
  the built-in one, which calls the function with the three arguments; a member
  \<^verbatim>\<open>apply\<close> of its own is called instead when it is a function; everything else throws.
\<close>

definition logObject_apply ::
  "jsval \<Rightarrow> host \<Rightarrow> int \<Rightarrow> jsval \<Rightarrow> jsval list \<Rightarrow> world \<Rightarrow> (js_error + unit) \<times> world" where
  "logObject_apply m h level message args w =
     (case m of
        JFun f ps \<Rightarrow>
          (case map_of ps ''apply'' of
             None \<Rightarrow> call_logObject f h level message args w
           | Some (JFun g qs) \<Rightarrow> call_as_apply g level message args w
           | Some _ \<Rightarrow> (Inl TypeError, w))
      | JObj ps \<Rightarrow>
          (case map_of ps ''apply'' of
             Some (JFun g qs) \<Rightarrow> call_as_apply g level message args w
           | _ \<Rightarrow> (Inl TypeError, w))
      | _ \<Rightarrow> (Inl TypeError, w))"

section \<open>Level methods\<close>

text \<open>
  Line 60, \<^verbatim>\<open>args[0] = this._prefix + args[0]\<close>: the prefix, then the first argument as
  a string (\<^verbatim>\<open>undefined\<close> when there is no argument).
\<close>

definition args0 :: "host \<Rightarrow> Logger \<Rightarrow> jsval list \<Rightarrow> jsval" where
  "args0 h this arguments =
     JStr (Log_prefix this @ ToString h (case arguments of [] \<Rightarrow> JUndefined | a # _ \<Rightarrow> a))"

text \<open>
  \<^verbatim>\<open>Log.makeLevel\<close>, lines 57 to 63: the method it returns, applied to its receiver,
  its arguments and the world. The receiver is returned as the call leaves it.
\<close>

definition makeLevel ::
  "int \<Rightarrow> host \<Rightarrow> Logger \<Rightarrow> jsval list \<Rightarrow> world \<Rightarrow> (js_error + unit) \<times> Logger \<times> world" where
  "makeLevel level h this arguments w =
     (case get_member (Log_engine w) ''logObject'' of
        Inl e \<Rightarrow> (Inl e, this, w)
      | Inr m \<Rightarrow>
          (case logObject_apply m h level (args0 h this arguments) (drop 1 arguments) w of
             (r, w') \<Rightarrow> (r, this, w')))"

definition debug :: "host \<Rightarrow> Logger \<Rightarrow> jsval list \<Rightarrow> world \<Rightarrow> (js_error + unit) \<times> Logger \<times> world" where
  "debug = makeLevel 1"

definition info :: "host \<Rightarrow> Logger \<Rightarrow> jsval list \<Rightarrow> world \<Rightarrow> (js_error + unit) \<times> Logger \<times> world" where
  "info = makeLevel 2"

definition warn :: "host \<Rightarrow> Logger \<Rightarrow> jsval list \<Rightarrow> world \<Rightarrow> (js_error + unit) \<times> Logger \<times> world" where
  "warn = makeLevel 3"

definition error :: "host \<Rightarrow> Logger \<Rightarrow> jsval list \<Rightarrow> world \<Rightarrow> (js_error + unit) \<times> Logger \<times> world" where
  "error = makeLevel 4"

section \<open>Loading the module\<close>

text \<open>
  Loading the module, lines 170 to 176, given whether \<^verbatim>\<open>window\<close> is defined, whether
  \<^verbatim>\<open>console\<close> is defined and whether \<^verbatim>\<open>console.log\<close> is truthy.
\<close>

definition load :: "bool \<Rightarrow> bool \<Rightarrow> bool \<Rightarrow> (js_error + unit) \<times> world" where
  "load has_window has_console has_console_log =
     (if has_window \<and> has_console
        then setEngine Class engines_interactive \<lparr>Log_engine = JUndefined, trace = []\<rparr>
      else if has_console \<and> has_console_log
        then setEngine Class engines_basic \<lparr>Log_engine = JUndefined, trace = []\<rparr>
      else setEngine Class engines_none \<lparr>Log_engine = JUndefined, trace = []\<rparr>)"

section \<open>Concrete hosts and the specification's own terms\<close>

text \<open>A Node.js host: the stack of a level call made from \<^verbatim>\<open>main\<close> in an application.\<close>

definition node_host :: host where
  "node_host =
     \<lparr>Error_stack = Some (''Error'' @ [CHR 0x0A]
        @ ''    at getLogInfo (log.js:77:17)'' @ [CHR 0x0A]
        @ ''    at Object.logObject (log.js:124:23)'' @ [CHR 0x0A]
        @ ''    at Log.<anonymous> (log.js:61:25)'' @ [CHR 0x0A]
        @ ''    at main (app.js:3:5)'' @ [CHR 0x0A]
        @ ''    at startup (app.js:9:1)''),
      Date_toISOString = ''2018-03-01T12:00:00.000Z'',
      navigator_userAgent = None,
      function_text = (\<lambda>f. ''function () {}''),
      toJSON_text = (\<lambda>k v key ind. Inr None)\<rparr>"

text \<open>
  The same host after \<^verbatim>\<open>Error.stackTraceLimit = 3\<close>: the stack text stops at the level
  method, so it has four lines and no fifth.
\<close>

definition short_stack_host :: host where
  "short_stack_host =
     node_host\<lparr>Error_stack := Some (''Error'' @ [CHR 0x0A]
        @ ''    at getLogInfo (log.js:77:17)'' @ [CHR 0x0A]
        @ ''    at Object.logObject (log.js:124:23)'' @ [CHR 0x0A]
        @ ''    at Log.<anonymous> (log.js:61:25)'')\<rparr>"

text \<open>The world after loading under Node.js, and one with an application's engine.\<close>

definition basic_world :: world where
  "basic_world = \<lparr>Log_engine = engines_basic, trace = []\<rparr>"

definition user_engine :: "nat \<Rightarrow> jsval" where
  "user_engine k = JObj [(''logObject'', JFun (UserFn k) [])]"

definition user_world :: world where
  "user_world = \<lparr>Log_engine = user_engine 0, trace = []\<rparr>"

text \<open>
  The specification's prefix of a segment sequence, in its own words: the segments
  joined with the separator colon-space (each segment after the first preceded by the
  separator), then one trailing separator; empty for the empty sequence.
\<close>

primrec spec_join :: "string \<Rightarrow> string list \<Rightarrow> string" where
  "spec_join sep [] = []"
| "spec_join sep (x # xs) = x @ concat (map (\<lambda>y. sep @ y) xs)"

definition spec_prefix :: "string list \<Rightarrow> string" where
  "spec_prefix S = (if S = [] then [] else spec_join '': '' S @ '': '')"

text \<open>A class whose static method \<^verbatim>\<open>logObject\<close> is an application's function.\<close>

definition engine_class :: jsval where
  "engine_class = JFun (UserFn 0) [(''logObject'', JFun (UserFn 1) [])]"

text \<open>
  The specification's engine, in its own words: a capability object, that is a value
  that is neither \<^verbatim>\<open>null\<close> nor a primitive, exposing a \<^verbatim>\<open>logObject\<close> that is callable.
\<close>

definition is_object :: "jsval \<Rightarrow> bool" where
  "is_object v = (case v of JArr xs \<Rightarrow> True | JObj ps \<Rightarrow> True | JFun f ps \<Rightarrow> True | _ \<Rightarrow> False)"

definition has_callable_logObject :: "jsval \<Rightarrow> bool" where
  "has_callable_logObject e \<longleftrightarrow>
     is_object e \<and> (case get_member e ''logObject'' of Inr (JFun g qs) \<Rightarrow> True | _ \<Rightarrow> False)"

text \<open>
  The values for which \<^verbatim>\<open>JSON.stringify\<close> neither meets a big integer nor calls a hook,
  wherever it looks: in the value, in the elements of an array, in the properties of an
  object.
\<close>

fun json_plain :: "jsval \<Rightarrow> bool" where
  "json_plain (JBigInt n) = False"
| "json_plain (JArr xs) = list_all json_plain xs"
| "json_plain (JObj ps) = (toJSON_hook (JObj ps) = None \<and> list_all (\<lambda>p. json_plain (snd p)) ps)"
| "json_plain (JFun f ps) = (toJSON_hook (JFun f ps) = None)"
| "json_plain v = True"

section \<open>Prefix composition\<close>

lemma join_strings_spec_join: "join_strings xs sep = spec_join sep xs"
proof (induction xs)
  case Nil
  show ?case by simp
next
  case (Cons x xs)
  show ?case
  proof (cases xs)
    case Nil
    then show ?thesis by simp
  next
    case (Cons y ys)
    with Cons.IH show ?thesis by simp
  qed
qed

lemma spec_join_trailing: "S \<noteq> [] \<Longrightarrow> spec_join sep (S @ [[]]) = spec_join sep S @ sep"
  by (cases S) simp_all

lemma Array_join_strings:
  "Array_join h (map JStr S @ [JStr t]) sep = join_strings (S @ [t]) sep"
  by (simp add: Array_join_def comp_def)

lemma Log_JArr: "Log h (JArr xs) = Logger xs (Array_join h (xs @ [JStr []]) '': '') None"
  by (simp add: Log_def)

lemma Array_join_spec_prefix: "Array_join h (map JStr S @ [JStr []]) '': '' = spec_prefix S"
proof (cases "S = []")
  case True
  then show ?thesis by (simp add: Array_join_def spec_prefix_def)
next
  case False
  then show ?thesis
    by (simp add: Array_join_strings spec_join_trailing join_strings_spec_join spec_prefix_def)
qed

lemma Log_namespace_sub:
  "Log_namespace (sub h L v) =
     (if truthy v \<and> typeof v = ''string'' then Log_namespace L @ [v] else Log_namespace L)"
  by (simp add: sub_def setParent_def Log_JArr Let_def)

lemma Log_prefix_sub:
  "Log_prefix (sub h L v) =
     Array_join h ((if truthy v \<and> typeof v = ''string'' then Log_namespace L @ [v]
                    else Log_namespace L) @ [JStr []]) '': ''"
  by (simp add: sub_def setParent_def Log_JArr Let_def)

text \<open>
  Claim C1. A logger built from a sequence \<open>S\<close> of string segments keeps \<open>S\<close> as its
  segments, and its prefix is the segments of \<open>S\<close> joined with colon-space followed by
  one trailing colon-space; for the empty sequence the prefix is the empty string. The
  same holds of the two other ways to a logger: from a single non-empty string \<open>s\<close>,
  with the sequence \<open>[s]\<close>, and from a logger of segments \<open>S\<close> by \<^verbatim>\<open>sub(n)\<close> for a
  non-empty string \<open>n\<close>, with the sequence \<open>S\<close> followed by \<open>n\<close>.
\<close>

theorem Log_prefix_joins_segments:
  "Log_namespace (Log h (JArr (map JStr S))) = map JStr S
   \<and> Log_prefix (Log h (JArr (map JStr S))) = spec_prefix S
   \<and> (s \<noteq> [] \<longrightarrow> Log_prefix (Log h (JStr s)) = spec_prefix [s])
   \<and> (Log_namespace L = map JStr S \<and> n \<noteq> [] \<longrightarrow>
        Log_prefix (sub h L (JStr n)) = spec_prefix (S @ [n]))"
proof (intro conjI impI)
  show "Log_namespace (Log h (JArr (map JStr S))) = map JStr S"
    by (simp add: Log_JArr)
next
  show "Log_prefix (Log h (JArr (map JStr S))) = spec_prefix S"
    by (simp add: Log_JArr Array_join_spec_prefix)
next
  assume "s \<noteq> []"
  then have "Log_prefix (Log h (JStr s)) = Array_join h (map JStr [s] @ [JStr []]) '': ''"
    by (simp add: Log_def)
  then show "Log_prefix (Log h (JStr s)) = spec_prefix [s]"
    by (simp only: Array_join_spec_prefix)
next
  assume "Log_namespace L = map JStr S \<and> n \<noteq> []"
  then have "Log_prefix (sub h L (JStr n)) = Array_join h (map JStr (S @ [n]) @ [JStr []]) '': ''"
    by (simp add: Log_prefix_sub)
  then show "Log_prefix (sub h L (JStr n)) = spec_prefix (S @ [n])"
    by (simp only: Array_join_spec_prefix)
qed

text \<open>The three examples of the claim: no segment, one segment, two segments.\<close>

theorem Log_prefix_joins_segments_witness:
  "Log_prefix (Log node_host (JArr (map JStr []))) = []
   \<and> Log_prefix (Log node_host (JArr (map JStr [''server'']))) = ''server: ''
   \<and> Log_prefix (Log node_host (JArr (map JStr [''server'', ''http'']))) = ''server: http: ''
   \<and> Log_prefix (Log node_host (JStr ''server'')) = ''server: ''
   \<and> Log_prefix (sub node_host (Log node_host (JStr ''server'')) (JStr ''http''))
       = ''server: http: ''"
proof -
  have ns: "Log_namespace (Log node_host (JStr ''server'')) = map JStr [''server'']"
    by (simp add: Log_def)
  show ?thesis
    using Log_prefix_joins_segments [of node_host "[]"]
      Log_prefix_joins_segments [of node_host "[''server'']" "''server''"
        "Log node_host (JStr ''server'')" "''http''"]
      Log_prefix_joins_segments [of node_host "[''server'', ''http'']"]
      ns
    by (simp add: spec_prefix_def)
qed

section \<open>Construction\<close>

text \<open>
  Claim C6 says that every single string \<open>s\<close> is wrapped into the one-element sequence
  \<open>[s]\<close>. The empty string is falsy, so line 14 sends it down the branch of an absent
  argument: the logger built from it has no segment.
\<close>

theorem Log_empty_string_counterexample:
  "Log_namespace (Log node_host (JStr [])) \<noteq> [JStr []]"
  by (simp add: Log_def)

text \<open>
  Claim C6, amended. Every non-empty string \<open>s\<close> gives the one-element sequence
  \<open>[s]\<close>; an absent argument gives the empty sequence; an array is used as it is.
\<close>

theorem Log_segments_of_argument:
  "(s \<noteq> [] \<longrightarrow> Log_namespace (Log h (JStr s)) = [JStr s])
   \<and> Log_namespace (Log h JUndefined) = []
   \<and> Log_namespace (Log h (JArr xs)) = xs"
  by (simp add: Log_def)

theorem Log_segments_of_argument_witness:
  "Log_namespace (Log node_host (JStr ''server'')) = [JStr ''server'']
   \<and> Log_namespace (Log node_host JUndefined) = []
   \<and> Log_namespace (Log node_host (JArr [JStr ''a'', JStr ''b''])) = [JStr ''a'', JStr ''b'']"
  using Log_segments_of_argument [of "''server''" node_host "[JStr ''a'', JStr ''b'']"]
  by simp

text \<open>
  Claim C10. A falsy argument (the empty string, \<open>0\<close>, \<^verbatim>\<open>undefined\<close>, ...) gives
  the logger of the construction without argument: no segment and the empty prefix.
  Only a truthy argument is wrapped: one that is not an array becomes the single
  segment \<^verbatim>\<open>String(v)\<close>, which is \<open>v\<close> itself for a string; an array is kept.
\<close>

theorem Log_falsy_argument:
  "(\<not> truthy v \<longrightarrow>
      Log h v = Log h JUndefined \<and> Log_namespace (Log h v) = [] \<and> Log_prefix (Log h v) = [])
   \<and> (truthy v \<and> \<not> Array_isArray v \<longrightarrow> Log_namespace (Log h v) = [JStr (ToString h v)])
   \<and> (truthy v \<and> Array_isArray v \<longrightarrow> JArr (Log_namespace (Log h v)) = v)
   \<and> ToString h (JStr s) = s"
  by (cases v) (simp_all add: Log_def Array_join_def)

theorem Log_falsy_argument_witness:
  "Log node_host (JStr []) = Log node_host JUndefined
   \<and> Log node_host (JNum 0) = Log node_host JUndefined
   \<and> Log_namespace (Log node_host (JStr [])) = []
   \<and> Log_prefix (Log node_host (JNum 0)) = []
   \<and> Log_namespace (Log node_host (JNum 120)) = [JStr ''120'']
   \<and> Log_namespace (Log node_host (JBool True)) = [JStr ''true'']"
  using Log_falsy_argument [of "JStr []" node_host] Log_falsy_argument [of "JNum 0" node_host]
    Log_falsy_argument [of "JNum 120" node_host] Log_falsy_argument [of "JBool True" node_host]
  by (simp add: Number_toString_def digit_char_def Log_def Array_join_def)

section \<open>Sub-loggers\<close>

lemma Log_parent_sub: "Log_parent (sub h L v) = Some L"
  by (simp add: sub_def setParent_def Let_def)

lemma args0_string: "args0 h L (JStr message # extras) = JStr (Log_prefix L @ message)"
  by (simp add: args0_def)

text \<open>With an application's engine active, a level call is one call of its function.\<close>

lemma makeLevel_user_engine:
  "Log_engine w = user_engine k \<Longrightarrow>
   makeLevel level h L args w =
     (Inr (), L,
      w\<lparr>trace := trace w @ [Called k [JNum level, args0 h L args, JArr (drop 1 args)]]\<rparr>)"
  by (simp add: makeLevel_def logObject_apply_def user_engine_def)

text \<open>
  Claim C2 says that \<^verbatim>\<open>sub(n)\<close> appends \<open>n\<close> for every string \<open>n\<close>. Line 44 appends
  only a truthy string: on the root logger, \<^verbatim>\<open>sub('')\<close> appends nothing.
\<close>

theorem sub_empty_string_counterexample:
  "Log_namespace (sub node_host (module_exports node_host) (JStr []))
     \<noteq> Log_namespace (module_exports node_host) @ [JStr []]"
  by (simp add: Log_namespace_sub)

text \<open>
  Claim C2, amended. For every logger \<open>L\<close> and every non-empty string \<open>n\<close>, the segments
  of \<^verbatim>\<open>L.sub(n)\<close> are those of \<open>L\<close> followed by \<open>n\<close>, and nesting composes: for
  non-empty \<open>n\<close> and \<open>m\<close> the segments of \<^verbatim>\<open>L.sub(n).sub(m)\<close> are those of \<open>L\<close>
  followed by \<open>n\<close> and \<open>m\<close>. The empty string leaves the segments as they are. The
  root logger after \<^verbatim>\<open>sub('net')\<close> and \<^verbatim>\<open>sub('tcp')\<close> turns the message
  \<^verbatim>\<open>connected\<close> into \<^verbatim>\<open>net: tcp: connected\<close>, and that is the message an
  application's engine receives from it at every level.
\<close>

theorem sub_appends_segment:
  "(n \<noteq> [] \<longrightarrow> Log_namespace (sub h L (JStr n)) = Log_namespace L @ [JStr n])
   \<and> (n \<noteq> [] \<and> m \<noteq> [] \<longrightarrow>
        Log_namespace (sub h (sub h L (JStr n)) (JStr m)) = Log_namespace L @ [JStr n, JStr m])
   \<and> Log_namespace (sub h L (JStr [])) = Log_namespace L
   \<and> args0 h (sub h (sub h (module_exports h) (JStr ''net'')) (JStr ''tcp''))
        [JStr ''connected''] = JStr ''net: tcp: connected''
   \<and> (Log_engine w = user_engine k \<longrightarrow>
        makeLevel level h (sub h (sub h (module_exports h) (JStr ''net'')) (JStr ''tcp''))
            [JStr ''connected''] w
          = (Inr (), sub h (sub h (module_exports h) (JStr ''net'')) (JStr ''tcp''),
             w\<lparr>trace := trace w @
                  [Called k [JNum level, JStr ''net: tcp: connected'', JArr []]]\<rparr>))"
proof (intro conjI impI)
  assume "n \<noteq> []"
  then show "Log_namespace (sub h L (JStr n)) = Log_namespace L @ [JStr n]"
    by (simp add: Log_namespace_sub)
next
  assume "n \<noteq> [] \<and> m \<noteq> []"
  then show "Log_namespace (sub h (sub h L (JStr n)) (JStr m)) = Log_namespace L @ [JStr n, JStr m]"
    by (simp add: Log_namespace_sub)
next
  show "Log_namespace (sub h L (JStr [])) = Log_namespace L"
    by (simp add: Log_namespace_sub)
next
  have "Log_namespace (module_exports h) = []"
    by (simp add: module_exports_def Log_def)
  then show "args0 h (sub h (sub h (module_exports h) (JStr ''net'')) (JStr ''tcp''))
        [JStr ''connected''] = JStr ''net: tcp: connected''"
    by (simp add: args0_string Log_prefix_sub Log_namespace_sub Array_join_def)
next
  let ?L = "sub h (sub h (module_exports h) (JStr ''net'')) (JStr ''tcp'')"
  assume e: "Log_engine w = user_engine k"
  have ns: "Log_namespace (module_exports h) = []"
    by (simp add: module_exports_def Log_def)
  have p: "Log_prefix ?L = ''net: tcp: ''"
    by (simp add: Log_prefix_sub Log_namespace_sub ns Array_join_def)
  show "makeLevel level h ?L [JStr ''connected''] w
          = (Inr (), ?L, w\<lparr>trace := trace w @
                  [Called k [JNum level, JStr ''net: tcp: connected'', JArr []]]\<rparr>)"
    by (simp add: makeLevel_user_engine [OF e] args0_string p)
qed

theorem sub_appends_segment_witness:
  "Log_namespace (sub node_host (module_exports node_host) (JStr ''net'')) = [JStr ''net'']
   \<and> Log_namespace (sub node_host (sub node_host (module_exports node_host) (JStr ''net''))
        (JStr ''tcp'')) = [JStr ''net'', JStr ''tcp'']
   \<and> trace (snd (snd (info node_host
        (sub node_host (sub node_host (module_exports node_host) (JStr ''net'')) (JStr ''tcp''))
        [JStr ''connected''] user_world)))
      = [Called 0 [JNum 2, JStr ''net: tcp: connected'', JArr []]]"
  using sub_appends_segment [of "''net''" node_host "module_exports node_host" "''tcp''"
      user_world 0 2]
  by (simp add: info_def module_exports_def Log_def Array_join_def user_world_def)

section \<open>The active engine\<close>

lemma typeof_function: "typeof m = ''function'' \<longleftrightarrow> (\<exists>f ps. m = JFun f ps)"
  by (cases m) simp_all

lemma accepted_engine_iff:
  "typeof e = ''object'' \<and> has_callable_logObject e \<longleftrightarrow>
     (\<exists>ps g qs. e = JObj ps \<and> map_of ps ''logObject'' = Some (JFun g qs))"
  by (cases e)
    (auto simp: has_callable_logObject_def is_object_def split: option.splits jsval.splits)

lemma setEngine_accepts:
  "typeof e = ''object'' \<and> has_callable_logObject e \<Longrightarrow>
   setEngine r e w = (Inr (), w\<lparr>Log_engine := e\<rparr>)"
  by (auto simp: accepted_engine_iff setEngine_def)

lemma setEngine_rejects:
  assumes "\<not> (typeof e = ''object'' \<and> has_callable_logObject e)"
  shows "setEngine r e w = (Inl (if e = JNull then TypeError else AssertionError), w)"
proof (cases e)
  case (JObj ps)
  show ?thesis
  proof (cases "map_of ps ''logObject''")
    case None
    with JObj show ?thesis by (simp add: setEngine_def)
  next
    case (Some m)
    with assms JObj have "\<not> (\<exists>g qs. m = JFun g qs)"
      using accepted_engine_iff [of e] by auto
    then have "typeof m \<noteq> ''function''"
      by (simp only: typeof_function not_False_eq_True)
    with JObj Some show ?thesis by (simp add: setEngine_def)
  qed
qed (simp_all add: setEngine_def)

lemma setEngine_function: "setEngine r (JFun f ps) w = (Inl AssertionError, w)"
  by (simp add: setEngine_def)

lemma load_node: "load False True True = (Inr (), basic_world)"
  by (simp add: load_def setEngine_def engines_basic_def basic_world_def)

text \<open>
  Claim C3 says that \<^verbatim>\<open>setEngine\<close> succeeds for every object that has a callable
  \<^verbatim>\<open>logObject\<close>. A class is such an object, neither \<^verbatim>\<open>null\<close> nor a primitive, and its
  \<^verbatim>\<open>typeof\<close> is \<^verbatim>\<open>'function'\<close>: line 165 refuses a class with a static method
  \<^verbatim>\<open>logObject\<close>, and the engine stays what it was.
\<close>

theorem setEngine_class_counterexample:
  "has_callable_logObject engine_class
   \<and> setEngine Class engine_class basic_world = (Inl AssertionError, basic_world)"
  by (simp add: engine_class_def has_callable_logObject_def is_object_def setEngine_def)

text \<open>
  Claim C3, amended. \<^verbatim>\<open>setEngine(e)\<close> makes \<open>e\<close> the active engine exactly when the
  \<^verbatim>\<open>typeof\<close> of \<open>e\<close> is \<^verbatim>\<open>'object'\<close> and \<open>e\<close> has a callable \<^verbatim>\<open>logObject\<close>. For
  every other value (\<^verbatim>\<open>null\<close>, a primitive, a function or class, with or without a
  \<^verbatim>\<open>logObject\<close> of its own, an object or array without a callable one) it raises, a
  \<^verbatim>\<open>TypeError\<close> on \<^verbatim>\<open>null\<close> and an \<^verbatim>\<open>AssertionError\<close> otherwise, and the world is
  left as it was.
\<close>

theorem setEngine_validates:
  "(typeof e = ''object'' \<and> has_callable_logObject e \<longrightarrow>
      setEngine r e w = (Inr (), w\<lparr>Log_engine := e\<rparr>))
   \<and> (\<not> (typeof e = ''object'' \<and> has_callable_logObject e) \<longrightarrow>
        setEngine r e w = (Inl (if e = JNull then TypeError else AssertionError), w))
   \<and> (typeof e = ''function'' \<longrightarrow> setEngine r e w = (Inl AssertionError, w))"
proof (intro conjI impI)
  assume "typeof e = ''object'' \<and> has_callable_logObject e"
  then show "setEngine r e w = (Inr (), w\<lparr>Log_engine := e\<rparr>)"
    by (rule setEngine_accepts)
next
  assume "\<not> (typeof e = ''object'' \<and> has_callable_logObject e)"
  then show "setEngine r e w = (Inl (if e = JNull then TypeError else AssertionError), w)"
    by (rule setEngine_rejects)
next
  assume "typeof e = ''function''"
  then obtain f ps where "e = JFun f ps"
    by (auto simp: typeof_function)
  then show "setEngine r e w = (Inl AssertionError, w)"
    by (simp add: setEngine_function)
qed

theorem setEngine_validates_witness:
  "setEngine Class engines_none basic_world
     = (Inr (), \<lparr>Log_engine = engines_none, trace = []\<rparr>)
   \<and> setEngine Class JNull basic_world = (Inl TypeError, basic_world)
   \<and> setEngine Class (JNum 5) basic_world = (Inl AssertionError, basic_world)
   \<and> setEngine Class (JObj [(''logObject'', JStr ''x'')]) basic_world
     = (Inl AssertionError, basic_world)
   \<and> setEngine Class (JFun (UserFn 0) [(''logObject'', JFun (UserFn 1) [])]) basic_world
     = (Inl AssertionError, basic_world)"
  using setEngine_validates [of engines_none Class basic_world]
    setEngine_validates [of JNull Class basic_world]
    setEngine_validates [of "JNum 5" Class basic_world]
    setEngine_validates [of "JObj [(''logObject'', JStr ''x'')]" Class basic_world]
    setEngine_validates [of "JFun (UserFn 0) [(''logObject'', JFun (UserFn 1) [])]" Class
      basic_world]
  by (simp add: has_callable_logObject_def is_object_def engines_none_def basic_world_def)

text \<open>
  Claim C8. Called on \<^verbatim>\<open>Log\<close> or on any instance, \<^verbatim>\<open>getEngine\<close> returns the one
  \<^verbatim>\<open>Log.engine\<close> of the world and \<^verbatim>\<open>setEngine\<close> has the same outcome; an engine set
  through either form is the one either form returns afterwards.
\<close>

theorem engine_accessors_shared:
  "getEngine Class w = getEngine (Instance L) w
   \<and> setEngine Class e w = setEngine (Instance L) e w
   \<and> (typeof e = ''object'' \<and> has_callable_logObject e \<longrightarrow>
        getEngine r (snd (setEngine Class e w)) = e
        \<and> getEngine r (snd (setEngine (Instance L) e w)) = e)
   \<and> getEngine r w = Log_engine w"
  by (simp add: getEngine_def setEngine_accepts) (simp add: setEngine_def)

theorem engine_accessors_shared_witness:
  "getEngine Class (snd (setEngine (Instance (module_exports node_host)) engines_none
       basic_world)) = engines_none
   \<and> getEngine (Instance (module_exports node_host)) (snd (setEngine Class engines_none
       basic_world)) = engines_none"
  using engine_accessors_shared [of basic_world "module_exports node_host" engines_none Class]
    engine_accessors_shared [of basic_world "module_exports node_host" engines_none
      "Instance (module_exports node_host)"]
  by (simp add: has_callable_logObject_def is_object_def engines_none_def)

section \<open>Level calls\<close>

lemma makeLevel_callable:
  "get_member (Log_engine w) ''logObject'' = Inr (JFun f ps) \<and> map_of ps ''apply'' = None \<Longrightarrow>
   makeLevel level h L args w =
     (fst (call_logObject f h level (args0 h L args) (drop 1 args) w),
      L,
      snd (call_logObject f h level (args0 h L args) (drop 1 args) w))"
  by (simp add: makeLevel_def logObject_apply_def split: prod.splits)

lemma makeLevel_receiver: "fst (snd (makeLevel level h L args w)) = L"
  by (simp add: makeLevel_def split: sum.splits prod.splits)

lemma Log_engine_logMessage: "Log_engine (logMessage level items w) = Log_engine w"
  by (simp add: logMessage_def)

lemma Log_engine_call_logObject:
  "Log_engine (snd (call_logObject f h level message args w)) = Log_engine w"
  by (cases f)
    (simp_all add: engines_basic_logObject_def engines_interactive_logObject_def
      Log_engine_logMessage split: sum.splits option.splits)

text \<open>
  Claim C4. The methods \<^verbatim>\<open>debug\<close>, \<^verbatim>\<open>info\<close>, \<^verbatim>\<open>warn\<close> and \<^verbatim>\<open>error\<close> are the
  level methods of the numbers 1, 2, 3 and 4, which is the number the engine receives;
  \<^verbatim>\<open>logMessage\<close> writes through \<^verbatim>\<open>console.log\<close> at the levels 1 and 2, through
  \<^verbatim>\<open>console.warn\<close> at level 3 and through \<^verbatim>\<open>console.error\<close> at level 4.
\<close>

theorem level_numbers_and_routing:
  "debug = makeLevel 1 \<and> info = makeLevel 2 \<and> warn = makeLevel 3 \<and> error = makeLevel 4
   \<and> (Log_engine w = user_engine k \<longrightarrow>
        trace (snd (snd (debug h L args w)))
          = trace w @ [Called k [JNum 1, args0 h L args, JArr (drop 1 args)]]
        \<and> trace (snd (snd (info h L args w)))
          = trace w @ [Called k [JNum 2, args0 h L args, JArr (drop 1 args)]]
        \<and> trace (snd (snd (warn h L args w)))
          = trace w @ [Called k [JNum 3, args0 h L args, JArr (drop 1 args)]]
        \<and> trace (snd (snd (error h L args w)))
          = trace w @ [Called k [JNum 4, args0 h L args, JArr (drop 1 args)]])
   \<and> logMessage 1 items w = w\<lparr>trace := trace w @ [Write console_log items]\<rparr>
   \<and> logMessage 2 items w = w\<lparr>trace := trace w @ [Write console_log items]\<rparr>
   \<and> logMessage 3 items w = w\<lparr>trace := trace w @ [Write console_warn items]\<rparr>
   \<and> logMessage 4 items w = w\<lparr>trace := trace w @ [Write console_error items]\<rparr>"
  by (simp add: debug_def info_def warn_def error_def makeLevel_user_engine logMessage_def)

theorem level_numbers_and_routing_witness:
  "trace (snd (snd (warn node_host (module_exports node_host) [JStr ''slow'', JNum 3]
      user_world)))
    = [Called 0 [JNum 3, JStr ''slow'', JArr [JNum 3]]]"
  using level_numbers_and_routing [of user_world 0 node_host
      "module_exports node_host" "[JStr ''slow'', JNum 3]" "[]"]
  by (simp add: args0_string module_exports_def Log_def Array_join_def user_world_def)

text \<open>
  Claim C9. A level call returns its logger as it received it, segments and prefix
  included, whatever the arguments, the engine and the outcome. With an engine whose
  \<^verbatim>\<open>logObject\<close> is the function \<open>f\<close> (one that inherits its \<^verbatim>\<open>apply\<close>, as functions
  do), the call is the call of \<open>f\<close> with the prefix of
  the logger put before the message, and a second call, made on the logger and in the
  world the first one left, is the call of \<open>f\<close> with the same prefix before its message.
\<close>

theorem level_call_keeps_logger:
  "fst (snd (makeLevel level h L args w)) = L
   \<and> (m \<in> {debug, info, warn, error} \<longrightarrow> fst (snd (m h L args w)) = L)
   \<and> args0 h L (JStr message # extras) = JStr (Log_prefix L @ message)
   \<and> (get_member (Log_engine w) ''logObject'' = Inr (JFun f ps) \<and> map_of ps ''apply'' = None \<longrightarrow>
        makeLevel level h L args w
          = (fst (call_logObject f h level (args0 h L args) (drop 1 args) w),
             L,
             snd (call_logObject f h level (args0 h L args) (drop 1 args) w))
        \<and> makeLevel level' h' (fst (snd (makeLevel level h L args w))) args'
             (snd (snd (makeLevel level h L args w)))
          = (fst (call_logObject f h' level' (args0 h' L args') (drop 1 args')
                    (snd (snd (makeLevel level h L args w)))),
             L,
             snd (call_logObject f h' level' (args0 h' L args') (drop 1 args')
                    (snd (snd (makeLevel level h L args w))))))"
proof (intro conjI impI)
  show "fst (snd (makeLevel level h L args w)) = L"
    by (rule makeLevel_receiver)
next
  assume "m \<in> {debug, info, warn, error}"
  then show "fst (snd (m h L args w)) = L"
    by (auto simp: debug_def info_def warn_def error_def makeLevel_receiver)
next
  show "args0 h L (JStr message # extras) = JStr (Log_prefix L @ message)"
    by (rule args0_string)
next
  assume m: "get_member (Log_engine w) ''logObject'' = Inr (JFun f ps) \<and> map_of ps ''apply'' = None"
  then show "makeLevel level h L args w
          = (fst (call_logObject f h level (args0 h L args) (drop 1 args) w),
             L,
             snd (call_logObject f h level (args0 h L args) (drop 1 args) w))"
    by (rule makeLevel_callable)
next
  assume m: "get_member (Log_engine w) ''logObject'' = Inr (JFun f ps) \<and> map_of ps ''apply'' = None"
  let ?c = "call_logObject f h level (args0 h L args) (drop 1 args) w"
  have first: "makeLevel level h L args w = (fst ?c, L, snd ?c)"
    using m by (rule makeLevel_callable)
  have "Log_engine (snd ?c) = Log_engine w"
    by (rule Log_engine_call_logObject)
  with m have m1: "get_member (Log_engine (snd ?c)) ''logObject'' = Inr (JFun f ps)
      \<and> map_of ps ''apply'' = None"
    by simp
  have "makeLevel level' h' L args' (snd ?c)
      = (fst (call_logObject f h' level' (args0 h' L args') (drop 1 args') (snd ?c)), L,
         snd (call_logObject f h' level' (args0 h' L args') (drop 1 args') (snd ?c)))"
    using m1 by (rule makeLevel_callable)
  then show "makeLevel level' h' (fst (snd (makeLevel level h L args w))) args'
             (snd (snd (makeLevel level h L args w)))
          = (fst (call_logObject f h' level' (args0 h' L args') (drop 1 args')
                    (snd (snd (makeLevel level h L args w)))),
             L,
             snd (call_logObject f h' level' (args0 h' L args') (drop 1 args')
                    (snd (snd (makeLevel level h L args w)))))"
    by (simp add: first)
qed

text \<open>Two calls of \<^verbatim>\<open>info('up')\<close> on the logger \<^verbatim>\<open>server\<close>.\<close>

theorem level_call_keeps_logger_witness:
  "fst (snd (info node_host (sub node_host (module_exports node_host) (JStr ''server''))
               [JStr ''up''] user_world))
     = sub node_host (module_exports node_host) (JStr ''server'')
   \<and> trace (snd (snd (info node_host
         (fst (snd (info node_host (sub node_host (module_exports node_host) (JStr ''server''))
                      [JStr ''up''] user_world)))
         [JStr ''up'']
         (snd (snd (info node_host (sub node_host (module_exports node_host) (JStr ''server''))
                      [JStr ''up''] user_world))))))
     = [Called 0 [JNum 2, JStr ''server: up'', JArr []],
        Called 0 [JNum 2, JStr ''server: up'', JArr []]]"
proof -
  let ?L = "sub node_host (module_exports node_host) (JStr ''server'')"
  let ?w1 = "\<lparr>Log_engine = user_engine 0,
              trace = [Called 0 [JNum 2, JStr ''server: up'', JArr []]]\<rparr>"
  note T = level_call_keeps_logger [of 2 node_host ?L "[JStr ''up'']" user_world info "''up''"
      "[]" "UserFn 0" "[]" 2 node_host "[JStr ''up'']"]
  have m: "get_member (Log_engine user_world) ''logObject'' = Inr (JFun (UserFn 0) [])
      \<and> map_of ([] :: (string \<times> jsval) list) ''apply'' = None"
    by (simp add: user_world_def user_engine_def)
  have p: "Log_prefix ?L = ''server: ''"
    by (simp add: Log_prefix_sub module_exports_def Log_def Array_join_def)
  from T p have a: "args0 node_host ?L [JStr ''up''] = JStr ''server: up''"
    by simp
  from T m have first: "makeLevel 2 node_host ?L [JStr ''up''] user_world = (Inr (), ?L, ?w1)"
    by (simp add: a user_world_def)
  from T m have "makeLevel 2 node_host (fst (snd (makeLevel 2 node_host ?L [JStr ''up''] user_world)))
        [JStr ''up''] (snd (snd (makeLevel 2 node_host ?L [JStr ''up''] user_world)))
      = (fst (call_logObject (UserFn 0) node_host 2 (args0 node_host ?L [JStr ''up''])
                (drop 1 [JStr ''up''])
                (snd (snd (makeLevel 2 node_host ?L [JStr ''up''] user_world)))),
         ?L,
         snd (call_logObject (UserFn 0) node_host 2 (args0 node_host ?L [JStr ''up''])
                (drop 1 [JStr ''up''])
                (snd (snd (makeLevel 2 node_host ?L [JStr ''up''] user_world)))))"
    by blast
  then have second: "trace (snd (snd (makeLevel 2 node_host ?L [JStr ''up''] ?w1)))
      = [Called 0 [JNum 2, JStr ''server: up'', JArr []],
         Called 0 [JNum 2, JStr ''server: up'', JArr []]]"
    unfolding first by (simp add: a)
  show ?thesis
    unfolding info_def first using second by simp
qed

section \<open>The call site and the basic engine\<close>

lemma location_unsupported: "Error_stack h = None \<Longrightarrow> location h = Inr []"
  by (simp add: location_def)

lemma location_frame:
  "Error_stack h = Some stack \<Longrightarrow> 4 < length (split (CHR 0x0A) stack) \<Longrightarrow>
   location h = Inr (dropWhile is_space (split (CHR 0x0A) stack ! 4))"
  by (simp add: location_def)

lemma location_raises:
  "location h = Inl e \<longleftrightarrow>
     e = TypeError \<and> (\<exists>stack. Error_stack h = Some stack \<and> length (split (CHR 0x0A) stack) \<le> 4)"
  by (auto simp: location_def Let_def split: option.splits if_splits)

lemma getLogInfo_unsupported:
  "Error_stack h = None \<Longrightarrow>
   getLogInfo h message args =
     Inr ([JStr (''['' @ Date_toISOString h @ '']''), message, JStr ''--'', JStr [],
           JStr [CHR 0x0A]] @ args)"
  by (simp add: getLogInfo_def location_unsupported)

lemma location_node_host: "location node_host = Inr ''at main (app.js:3:5)''"
  by (simp add: location_def node_host_def is_space_def)

text \<open>
  Claim C5 at a stack text without a fifth line. Line 85 guards against a stack that is
  not a string only: here \<^verbatim>\<open>stack.split('\n')[4]\<close> is \<^verbatim>\<open>undefined\<close>, calling
  \<^verbatim>\<open>replace\<close> on it throws, and the level call ends in that \<^verbatim>\<open>TypeError\<close> with nothing
  written.
\<close>

theorem getLogInfo_short_stack:
  "getLogInfo short_stack_host (JStr ''started'') [] = Inl TypeError
   \<and> info short_stack_host (module_exports short_stack_host) [JStr ''started''] basic_world
       = (Inl TypeError, module_exports short_stack_host, basic_world)"
  by (simp add: getLogInfo_def location_def short_stack_host_def node_host_def info_def
      makeLevel_def logObject_apply_def basic_world_def engines_basic_def
      engines_basic_logObject_def)

lemma all_results_map_Inr: "all_results (map Inr xs) = Inr xs"
  by (induction xs) simp_all

lemma all_results_first_error: "all_results (map Inr xs @ Inl e # rs) = Inl e"
  by (induction xs) simp_all

lemma all_results_Inr:
  "(\<And>r. r \<in> set rs \<Longrightarrow> \<exists>x. r = Inr x) \<Longrightarrow> \<exists>xs. all_results rs = Inr xs"
proof (induction rs)
  case Nil
  show ?case by simp
next
  case (Cons r rs)
  from Cons.prems obtain x where r: "r = Inr x"
    by auto
  from Cons obtain xs where "all_results rs = Inr xs"
    by auto
  with r show ?case by simp
qed

text \<open>
  A value free of big integers and hooks has a serialisation or is \<^verbatim>\<open>undefined\<close> or a
  function; serialising it never throws.
\<close>

lemma json_plain_serializes:
  "json_plain v \<Longrightarrow>
   \<exists>r. SerializeJSONProperty h v ind key = Inr r
        \<and> (r = None \<longleftrightarrow> v = JUndefined \<or> typeof v = ''function'')"
proof (induction v arbitrary: ind key)
  case (JArr xs)
  let ?rs = "map2 (\<lambda>i element. element (ind @ ''  '') (digits i)) [0..<length xs]
               (map (SerializeJSONProperty h) xs)"
  have "\<exists>x. r = Inr x" if "r \<in> set ?rs" for r
  proof -
    from that obtain i element
      where z: "(i, element) \<in> set (zip [0..<length xs] (map (SerializeJSONProperty h) xs))"
        and r': "r = element (ind @ ''  '') (digits i)"
      by (auto simp del: digits.simps)
    from z have "element \<in> set (map (SerializeJSONProperty h) xs)"
      by (rule set_zip_rightD)
    with r' obtain y where "y \<in> set xs"
      and r: "r = SerializeJSONProperty h y (ind @ ''  '') (digits i)"
      by auto
    with JArr.prems have "json_plain y"
      by (simp add: list_all_iff)
    with JArr.IH \<open>y \<in> set xs\<close> r show ?thesis
      by blast
  qed
  then obtain partial where "all_results ?rs = Inr partial"
    using all_results_Inr [of ?rs] by blast
  then show ?case by simp
next
  case (JObj ps)
  let ?rs = "map (\<lambda>p. case SerializeJSONProperty h (snd p) (ind @ ''  '') (fst p) of
                        Inl e \<Rightarrow> Inl e
                      | Inr None \<Rightarrow> Inr []
                      | Inr (Some t) \<Rightarrow> Inr [QuoteJSONString (fst p) @ '': '' @ t]) ps"
  from JObj.prems have hook: "toJSON_hook (JObj ps) = None"
    by simp
  have "\<exists>x. r = Inr x" if "r \<in> set ?rs" for r
  proof -
    from that obtain p where p: "p \<in> set ps"
      and r: "r = (case SerializeJSONProperty h (snd p) (ind @ ''  '') (fst p) of
                     Inl e \<Rightarrow> Inl e
                   | Inr None \<Rightarrow> Inr []
                   | Inr (Some t) \<Rightarrow> Inr [QuoteJSONString (fst p) @ '': '' @ t])"
      by auto
    from JObj.prems p have "json_plain (snd p)"
      by (simp add: list_all_iff)
    moreover have "snd p \<in> Basic_BNFs.snds p"
      by (cases p) simp
    ultimately obtain q where "SerializeJSONProperty h (snd p) (ind @ ''  '') (fst p) = Inr q"
      using JObj.IH p by blast
    with r show ?thesis
      by (cases q) simp_all
  qed
  then obtain partial where "all_results ?rs = Inr partial"
    using all_results_Inr [of ?rs] by blast
  with hook show ?case by simp
qed simp_all

lemma JSON_stringify_plain:
  assumes "json_plain v" and "v \<noteq> JUndefined" and "typeof v \<noteq> ''function''"
  shows "\<exists>t. JSON_stringify h v = Inr (JStr t)"
proof -
  from json_plain_serializes [OF assms(1), of h "[]" "[]"] assms(2,3)
  obtain t where "SerializeJSONProperty h v [] [] = Inr (Some t)"
    by auto
  then show ?thesis by (simp add: JSON_stringify_def)
qed

lemma JSON_stringify_undefined: "JSON_stringify h JUndefined = Inr JUndefined"
  by (simp add: JSON_stringify_def)

lemma JSON_stringify_function:
  "json_plain (JFun g ps) \<Longrightarrow> JSON_stringify h (JFun g ps) = Inr JUndefined"
  by (simp add: JSON_stringify_def)

lemma JSON_stringify_bigint: "JSON_stringify h (JBigInt n) = Inl TypeError"
  by (simp add: JSON_stringify_def)

lemma JSON_stringify_code_7:
  "JSON_stringify h (JObj [(''code'', JNum 7)])
     = Inr (JStr (''{'' @ [CHR 0x0A] @ ''  '' @ [CHR 0x22] @ ''code'' @ [CHR 0x22] @ '': 7''
                  @ [CHR 0x0A] @ ''}''))"
  by (simp add: JSON_stringify_def toJSON_hook_def QuoteJSONString_def escape_def
      Number_toString_def digit_char_def)

lemma basic_logObject_located:
  "location h = Inr loc \<Longrightarrow>
   engines_basic_logObject h level message extras w =
     (case all_results (map (JSON_stringify h) extras) of
        Inl e \<Rightarrow> (Inl e, w)
      | Inr items \<Rightarrow>
          (Inr (), logMessage level
             ([JStr (''['' @ Date_toISOString h @ '']''), message, JStr ''--'', JStr loc,
               JStr [CHR 0x0A]] @ items) w))"
  by (simp add: engines_basic_logObject_def getLogInfo_def split: sum.splits)

lemma get_member_engines_basic:
  "get_member engines_basic ''logObject'' = Inr (JFun BasicLogObject [])"
  by (simp add: engines_basic_def)

text \<open>
  Claim C7 says that every extra value is written as a text. \<^verbatim>\<open>JSON.stringify\<close> has no
  text for \<^verbatim>\<open>undefined\<close>: with the basic engine, \<^verbatim>\<open>error('failed', undefined)\<close> hands
  \<^verbatim>\<open>console.error\<close> the value \<^verbatim>\<open>undefined\<close> itself as its last item.
\<close>

theorem basic_engine_undefined_counterexample:
  "trace (snd (snd (error node_host (module_exports node_host) [JStr ''failed'', JUndefined]
      basic_world)))
    = [Write console_error
         [JStr ''[2018-03-01T12:00:00.000Z]'', JStr ''failed'', JStr ''--'',
          JStr ''at main (app.js:3:5)'', JStr [CHR 0x0A], JUndefined]]"
  by (simp add: error_def makeLevel_def logObject_apply_def args0_def basic_world_def
      engines_basic_def engines_basic_logObject_def getLogInfo_def location_def node_host_def
      is_space_def logMessage_def JSON_stringify_def module_exports_def Log_def Array_join_def)

text \<open>
  Claim C7, amended. With the basic engine active and the location obtained, a level
  call comes to one of two ends. When \<^verbatim>\<open>JSON.stringify(v, null, 2)\<close> returns for every
  extra value \<open>v\<close>, the call hands \<^verbatim>\<open>logMessage\<close> its level and one item sequence: the
  timestamp between square brackets, the message behind the prefix, two dashes, the
  location, a line feed, and then what \<^verbatim>\<open>JSON.stringify\<close> returned for each extra
  value, in order. When it throws on an extra value, the first such error ends the
  call and nothing is written. It returns a text for every value other than
  \<^verbatim>\<open>undefined\<close> and a function that holds no big integer and no \<^verbatim>\<open>toJSON\<close> hook,
  \<^verbatim>\<open>undefined\<close> for \<^verbatim>\<open>undefined\<close> and for a function without a hook, and it throws
  on a big integer. \<^verbatim>\<open>error('failed', {code: 7})\<close> writes through \<^verbatim>\<open>console.error\<close>,
  its last item the three-line text of the object with \<^verbatim>\<open>"code": 7\<close> indented by two
  spaces.
\<close>

theorem basic_engine_serializes:
  assumes "location h = Inr loc" and "Log_engine w = engines_basic"
  shows "(map (JSON_stringify h) (drop 1 args) = map Inr items \<longrightarrow>
            makeLevel level h L args w =
              (Inr (), L,
               logMessage level
                 ([JStr (''['' @ Date_toISOString h @ '']''), args0 h L args,
                   JStr ''--'', JStr loc, JStr [CHR 0x0A]] @ items) w))
         \<and> (drop 1 args = before @ u # rest
              \<and> map (JSON_stringify h) before = map Inr items \<and> JSON_stringify h u = Inl e \<longrightarrow>
              makeLevel level h L args w = (Inl e, L, w))
         \<and> (json_plain v \<and> v \<noteq> JUndefined \<and> typeof v \<noteq> ''function''
               \<longrightarrow> (\<exists>t. JSON_stringify h v = Inr (JStr t)))
         \<and> JSON_stringify h JUndefined = Inr JUndefined
         \<and> (json_plain (JFun g ps) \<longrightarrow> JSON_stringify h (JFun g ps) = Inr JUndefined)
         \<and> JSON_stringify h (JBigInt n) = Inl TypeError
         \<and> error h L [JStr ''failed'', JObj [(''code'', JNum 7)]] w =
             (Inr (), L,
              w\<lparr>trace := trace w @
                [Write console_error
                   [JStr (''['' @ Date_toISOString h @ '']''), JStr (Log_prefix L @ ''failed''),
                    JStr ''--'', JStr loc, JStr [CHR 0x0A],
                    JStr (''{'' @ [CHR 0x0A] @ ''  '' @ [CHR 0x22] @ ''code'' @ [CHR 0x22]
                          @ '': 7'' @ [CHR 0x0A] @ ''}'')]]\<rparr>)"
proof (intro conjI impI)
  have m: "get_member (Log_engine w) ''logObject'' = Inr (JFun BasicLogObject [])
      \<and> map_of ([] :: (string \<times> jsval) list) ''apply'' = None"
    using assms(2) by (simp add: get_member_engines_basic)
  have call: "makeLevel lv h L xs w =
      (case all_results (map (JSON_stringify h) (drop 1 xs)) of
         Inl e \<Rightarrow> (Inl e, L, w)
       | Inr items \<Rightarrow>
           (Inr (), L,
            logMessage lv
              ([JStr (''['' @ Date_toISOString h @ '']''), args0 h L xs,
                JStr ''--'', JStr loc, JStr [CHR 0x0A]] @ items) w))"
    for lv xs
    by (simp add: makeLevel_callable [OF m] basic_logObject_located [OF assms(1)]
        split: sum.splits)
  {
    assume "map (JSON_stringify h) (drop 1 args) = map Inr items"
    then show "makeLevel level h L args w =
              (Inr (), L,
               logMessage level
                 ([JStr (''['' @ Date_toISOString h @ '']''), args0 h L args,
                   JStr ''--'', JStr loc, JStr [CHR 0x0A]] @ items) w)"
      by (simp add: call all_results_map_Inr)
  next
    assume "drop 1 args = before @ u # rest
              \<and> map (JSON_stringify h) before = map Inr items \<and> JSON_stringify h u = Inl e"
    then have "map (JSON_stringify h) (drop 1 args)
        = map Inr items @ Inl e # map (JSON_stringify h) rest"
      by simp
    then show "makeLevel level h L args w = (Inl e, L, w)"
      by (simp add: call all_results_first_error)
  next
    assume "json_plain v \<and> v \<noteq> JUndefined \<and> typeof v \<noteq> ''function''"
    then show "\<exists>t. JSON_stringify h v = Inr (JStr t)"
      by (simp add: JSON_stringify_plain)
  next
    show "JSON_stringify h JUndefined = Inr JUndefined"
      by (rule JSON_stringify_undefined)
  next
    assume "json_plain (JFun g ps)"
    then show "JSON_stringify h (JFun g ps) = Inr JUndefined"
      by (rule JSON_stringify_function)
  next
    show "JSON_stringify h (JBigInt n) = Inl TypeError"
      by (rule JSON_stringify_bigint)
  next
    show "error h L [JStr ''failed'', JObj [(''code'', JNum 7)]] w =
             (Inr (), L,
              w\<lparr>trace := trace w @
                [Write console_error
                   [JStr (''['' @ Date_toISOString h @ '']''), JStr (Log_prefix L @ ''failed''),
                    JStr ''--'', JStr loc, JStr [CHR 0x0A],
                    JStr (''{'' @ [CHR 0x0A] @ ''  '' @ [CHR 0x22] @ ''code'' @ [CHR 0x22]
                          @ '': 7'' @ [CHR 0x0A] @ ''}'')]]\<rparr>)"
      unfolding error_def call
      by (simp add: JSON_stringify_code_7 logMessage_def args0_string)
  }
qed

text \<open>
  \<^verbatim>\<open>error('failed', {code: 7})\<close> and \<^verbatim>\<open>error('failed', 10n)\<close> on the root logger
  under Node.js.
\<close>

theorem basic_engine_serializes_witness:
  "location node_host = Inr ''at main (app.js:3:5)''
   \<and> Log_engine basic_world = engines_basic
   \<and> error node_host (module_exports node_host) [JStr ''failed'', JObj [(''code'', JNum 7)]]
        basic_world =
       (Inr (), module_exports node_host,
        \<lparr>Log_engine = engines_basic,
         trace = [Write console_error
                   [JStr ''[2018-03-01T12:00:00.000Z]'', JStr ''failed'',
                    JStr ''--'', JStr ''at main (app.js:3:5)'', JStr [CHR 0x0A],
                    JStr (''{'' @ [CHR 0x0A] @ ''  '' @ [CHR 0x22] @ ''code'' @ [CHR 0x22]
                          @ '': 7'' @ [CHR 0x0A] @ ''}'')]]\<rparr>)
   \<and> error node_host (module_exports node_host) [JStr ''failed'', JBigInt 10] basic_world
       = (Inl TypeError, module_exports node_host, basic_world)
   \<and> (\<exists>t. JSON_stringify node_host (JArr [JNum 1, JUndefined]) = Inr (JStr t))
   \<and> JSON_stringify node_host (JFun (UserFn 0) []) = Inr JUndefined"
proof -
  have l: "location node_host = Inr ''at main (app.js:3:5)''"
    by (rule location_node_host)
  have e: "Log_engine basic_world = engines_basic"
    by (simp add: basic_world_def)
  have p: "Log_prefix (module_exports node_host) = []"
    by (simp add: module_exports_def Log_def Array_join_def)
  have d: "Date_toISOString node_host = ''2018-03-01T12:00:00.000Z''"
    by (simp add: node_host_def)
  note T = basic_engine_serializes [OF l e, of "[JStr ''failed'', JBigInt 10]" "[]" 4
      "module_exports node_host" "[]" "JBigInt 10" "[]" TypeError "JArr [JNum 1, JUndefined]"
      "UserFn 0" "[]" 10]
  have b: "JSON_stringify node_host (JBigInt 10) = Inl TypeError"
    using T by simp
  have plain: "json_plain (JArr [JNum 1, JUndefined])" "json_plain (JFun (UserFn 0) [])"
    by (simp_all add: toJSON_hook_def)
  from T b have failing: "error node_host (module_exports node_host)
      [JStr ''failed'', JBigInt 10] basic_world = (Inl TypeError, module_exports node_host, basic_world)"
    by (simp add: error_def)
  from T plain show ?thesis
    using l e failing by (simp add: p d basic_world_def)
qed

end
